theory Spec2Isabelle
  imports Complex_Main
begin

section \<open>JSON documents and the Python operations applied to them\<close>

text \<open>
  The server in \<^verbatim>\<open>server/main.py\<close> works on the decoded JSON bodies of two web
  services. A decoded body is a Python value built from \<^verbatim>\<open>None\<close>, booleans, numbers,
  strings, lists and dictionaries. A dictionary is kept as an association list of its
  items, whose keys are distinct; a lookup takes the binding of the key.
\<close>

datatype json =
    JNull
  | JBool bool
  | JInt int
  | JFloat real
  | JStr string
  | JArr "json list"
  | JObj "(string \<times> json) list"

text \<open>
  The exceptions that can occur while a tool runs. \<open>HTTPStatusError\<close> carries the status
  code of the response it was raised for; \<open>RequestError\<close> stands for the transport
  failures of the HTTP client (no connection, timeout) and \<open>JSONDecodeError\<close> for a body
  that is not JSON.
\<close>

datatype exn =
    HTTPStatusError nat
  | RequestError
  | JSONDecodeError
  | AttributeError
  | KeyError
  | IndexError
  | TypeError
  | ValueError
  | ValidationError

text \<open>
  A \<open>reply\<close> is the outcome of the three statements
  \<^verbatim>\<open>response = await client.get(...); response.raise_for_status(); data = response.json()\<close>:
  the decoded body, or the exception one of them raised.
\<close>

type_synonym reply = "exn + json"

fun and_then :: "exn + 'a \<Rightarrow> ('a \<Rightarrow> exn + 'b) \<Rightarrow> exn + 'b" where
  "and_then (Inl e) f = Inl e"
| "and_then (Inr v) f = f v"

text \<open>Python truthiness (\<^verbatim>\<open>if not x\<close>).\<close>

fun truthy :: "json \<Rightarrow> bool" where
  "truthy JNull = False"
| "truthy (JBool b) = b"
| "truthy (JInt i) = (i \<noteq> 0)"
| "truthy (JFloat r) = (r \<noteq> 0)"
| "truthy (JStr s) = (s \<noteq> [])"
| "truthy (JArr xs) = (xs \<noteq> [])"
| "truthy (JObj kvs) = (kvs \<noteq> [])"

text \<open>\<^verbatim>\<open>d.get(k, default)\<close>: only a dictionary has the method.\<close>

fun dict_get :: "json \<Rightarrow> string \<Rightarrow> json \<Rightarrow> exn + json" where
  "dict_get (JObj kvs) k dflt = (case map_of kvs k of None \<Rightarrow> Inr dflt | Some v \<Rightarrow> Inr v)"
| "dict_get _ k dflt = Inl AttributeError"

text \<open>\<^verbatim>\<open>d["k"]\<close> with a string key: a missing key raises, and so does every value that
  is not a dictionary (a list or a string wants an integer index, the rest cannot be
  subscripted).\<close>

fun item :: "json \<Rightarrow> string \<Rightarrow> exn + json" where
  "item (JObj kvs) k = (case map_of kvs k of None \<Rightarrow> Inl KeyError | Some v \<Rightarrow> Inr v)"
| "item _ k = Inl TypeError"

text \<open>\<^verbatim>\<open>x[0]\<close>: the first element of a list, the first character of a string; a
  dictionary decoded from JSON has string keys only, so \<open>0\<close> is a missing key.\<close>

fun item0 :: "json \<Rightarrow> exn + json" where
  "item0 (JArr []) = Inl IndexError"
| "item0 (JArr (x # xs)) = Inr x"
| "item0 (JStr []) = Inl IndexError"
| "item0 (JStr (c # cs)) = Inr (JStr [c])"
| "item0 (JObj kvs) = Inl KeyError"
| "item0 _ = Inl TypeError"

text \<open>Iteration (\<^verbatim>\<open>for x in v\<close>): a list gives its elements, a string its characters,
  a dictionary its keys; nothing else is iterable.\<close>

fun py_iter :: "json \<Rightarrow> exn + json list" where
  "py_iter (JArr xs) = Inr xs"
| "py_iter (JStr s) = Inr (map (\<lambda>c. JStr [c]) s)"
| "py_iter (JObj kvs) = Inr (map (\<lambda>kv. JStr (fst kv)) kvs)"
| "py_iter _ = Inl TypeError"

text \<open>\<^verbatim>\<open>str(n)\<close> for a status code.\<close>

definition digit :: "nat \<Rightarrow> char" where
  "digit d = ''0123456789'' ! d"

fun str_nat :: "nat \<Rightarrow> string" where
  "str_nat n = (if n < 10 then [digit n] else str_nat (n div 10) @ [digit (n mod 10)])"

section \<open>What the libraries contribute\<close>

text \<open>
  \<open>datetime\<close> values: a naive one (no offset) or an aware one, each as microseconds
  since the epoch, an aware one normalised to UTC.
\<close>

datatype datetime = Naive int | Aware int

text \<open>Ordering two datetimes: a naive and an aware one cannot be compared.\<close>

fun dt_less :: "datetime \<Rightarrow> datetime \<Rightarrow> exn + bool" where
  "dt_less (Aware a) (Aware b) = Inr (a < b)"
| "dt_less (Naive a) (Naive b) = Inr (a < b)"
| "dt_less _ _ = Inl TypeError"

text \<open>
  The behaviour of the libraries the server calls is a parameter of the model:
  \<^item> \<open>fromisoformat\<close>: \<^verbatim>\<open>datetime.fromisoformat\<close>, \<open>None\<close> where it raises \<^verbatim>\<open>ValueError\<close>;
  \<^item> \<open>shuffle\<close>: the order \<^verbatim>\<open>random.shuffle\<close> leaves a list in;
  \<^item> \<open>int_field\<close>, \<open>float_field\<close>, \<open>str_field\<close>: pydantic's validation of a value
    given for a field of that type, \<open>None\<close> where it raises a validation error;
  \<^item> \<open>exc_text\<close>: the text \<^verbatim>\<open>{line_number}: {exc_value}\<close> of a caught exception.
\<close>

record runtime =
  fromisoformat :: "string \<Rightarrow> datetime option"
  shuffle :: "json list \<Rightarrow> json list"
  int_field :: "json \<Rightarrow> int option"
  float_field :: "json \<Rightarrow> real option"
  str_field :: "json \<Rightarrow> string option"
  exc_text :: "exn \<Rightarrow> string"

definition validated :: "'a option \<Rightarrow> exn + 'a" where
  "validated v = (case v of None \<Rightarrow> Inl ValidationError | Some x \<Rightarrow> Inr x)"

section \<open>Geocoding\<close>

record GeocodePlacenameResponse =
  latitude :: real
  longitude :: real
  placename :: string
  message :: string

text \<open>
  \<^verbatim>\<open>_geocode_one_placename\<close>. \<open>tomtom\<close> is the geocoding provider seen through the
  client: the reply to the request for a place name. Only \<^verbatim>\<open>httpx.HTTPStatusError\<close> is
  caught; every other exception leaves the function.
\<close>

definition geocode_one_placename_try ::
  "runtime \<Rightarrow> (string \<Rightarrow> reply) \<Rightarrow> string \<Rightarrow> exn + GeocodePlacenameResponse" where
  "geocode_one_placename_try rt tomtom pn =
     and_then (tomtom pn) (\<lambda>data.
     and_then (dict_get data ''results'' JNull) (\<lambda>results.
       if \<not> truthy results then
         Inr \<lparr>latitude = 0, longitude = 0, placename = pn,
              message = ''error resolving placename''\<rparr>
       else
         and_then (item0 results) (\<lambda>first.
         and_then (item first ''position'') (\<lambda>position.
         and_then (item position ''lat'') (\<lambda>lat.
         and_then (item position ''lon'') (\<lambda>lon.
         and_then (validated (float_field rt lat)) (\<lambda>la.
         and_then (validated (float_field rt lon)) (\<lambda>lo.
           Inr \<lparr>latitude = la, longitude = lo, placename = pn, message = ''ok''\<rparr>))))))))"

definition geocode_one_placename ::
  "runtime \<Rightarrow> (string \<Rightarrow> reply) \<Rightarrow> string \<Rightarrow> exn + GeocodePlacenameResponse" where
  "geocode_one_placename rt tomtom pn =
     (case geocode_one_placename_try rt tomtom pn of
        Inl (HTTPStatusError code) \<Rightarrow>
          Inr \<lparr>latitude = 0, longitude = 0, placename = pn,
               message = ''upstream error (status code='' @ str_nat code @ '')''\<rparr>
      | Inl e \<Rightarrow> Inl e
      | Inr r \<Rightarrow> Inr r)"

text \<open>\<^verbatim>\<open>placename_to_latlon\<close>: the tool for one place name.\<close>

definition placename_to_latlon ::
  "runtime \<Rightarrow> (string \<Rightarrow> reply) \<Rightarrow> string \<Rightarrow> exn + GeocodePlacenameResponse" where
  "placename_to_latlon rt tomtom pn = geocode_one_placename rt tomtom pn"

text \<open>
  \<^verbatim>\<open>placenames_to_latlons\<close>: one task per place name, in the order of the list, and
  \<^verbatim>\<open>asyncio.gather\<close> returns the tasks' results in the order of the tasks. The reply
  the \<open>i\<close>-th task receives is \<open>tomtom i\<close> of its place name, so two requests for the same
  name may be answered differently. When a task raises, \<^verbatim>\<open>gather\<close> raises to the
  caller; with several failing tasks it raises the exception that occurred first in
  time, for which the model takes the first in the order of the list.
\<close>

fun gather :: "(exn + 'a) list \<Rightarrow> exn + 'a list" where
  "gather [] = Inr []"
| "gather (t # ts) =
     (case t of
        Inl e \<Rightarrow> Inl e
      | Inr r \<Rightarrow> (case gather ts of Inl e \<Rightarrow> Inl e | Inr rs \<Rightarrow> Inr (r # rs)))"

definition placenames_to_latlons ::
  "runtime \<Rightarrow> (nat \<Rightarrow> string \<Rightarrow> reply) \<Rightarrow> string list \<Rightarrow> exn + GeocodePlacenameResponse list" where
  "placenames_to_latlons rt tomtom placenames =
     gather (map (\<lambda>(i, pn). geocode_one_placename rt (tomtom i) pn)
                 (zip [0 ..< length placenames] placenames))"

section \<open>Air quality\<close>

record AirQualityResult =
  sensor_id :: int
  placename :: string
  timestamp :: string
  pm25 :: real
  status :: string

text \<open>
  The air-quality provider seen through the client: the reply to the request for the
  locations near a coordinate, and the reply to the request for the hourly measurements
  of a sensor (named by the \<^verbatim>\<open>id\<close> found in the location) from an instant on.
\<close>

record openaq =
  locations :: "real \<Rightarrow> real \<Rightarrow> reply"
  hourly :: "json \<Rightarrow> int \<Rightarrow> reply"

text \<open>\<^verbatim>\<open>timedelta(hours=8)\<close> in microseconds.\<close>

definition eight_hours :: int where
  "eight_hours = 8 * 3600 * 1000000"

text \<open>\<^verbatim>\<open>s.replace("Z", "+00:00")\<close>: a method of strings only.\<close>

fun replace_Z :: "json \<Rightarrow> exn + string" where
  "replace_Z (JStr s) = Inr (concat (map (\<lambda>c. if c = CHR ''Z'' then ''+00:00'' else [c]) s))"
| "replace_Z _ = Inl AttributeError"

text \<open>\<^verbatim>\<open>s.get("parameter", {}).get("name") == "pm25"\<close>\<close>

definition is_pm25 :: "json \<Rightarrow> exn + bool" where
  "is_pm25 s =
     and_then (dict_get s ''parameter'' (JObj [])) (\<lambda>parameter.
     and_then (dict_get parameter ''name'' JNull) (\<lambda>name.
       Inr (name = JStr ''pm25'')))"

text \<open>\<^verbatim>\<open>any(... for s in sensors)\<close> stops at the first sensor that matches.\<close>

fun any_pm25 :: "json list \<Rightarrow> exn + bool" where
  "any_pm25 [] = Inr False"
| "any_pm25 (s # ss) =
     (case is_pm25 s of
        Inl e \<Rightarrow> Inl e
      | Inr b \<Rightarrow> if b then Inr True else any_pm25 ss)"

text \<open>\<^verbatim>\<open>next((s for s in ... if ...), None)\<close>\<close>

fun next_pm25 :: "json list \<Rightarrow> exn + json" where
  "next_pm25 [] = Inr JNull"
| "next_pm25 (s # ss) =
     (case is_pm25 s of
        Inl e \<Rightarrow> Inl e
      | Inr b \<Rightarrow> if b then Inr s else next_pm25 ss)"

text \<open>\<^verbatim>\<open>(loc.get("datetimeLast") or {}).get("utc")\<close>\<close>

definition last_updated_str :: "json \<Rightarrow> exn + json" where
  "last_updated_str loc =
     and_then (dict_get loc ''datetimeLast'' JNull) (\<lambda>dl.
       dict_get (if truthy dl then dl else JObj []) ''utc'' JNull)"

text \<open>\<^verbatim>\<open>sensors = loc.get("sensors", []); has_pm25 = any(...)\<close>\<close>

definition has_pm25 :: "json \<Rightarrow> exn + bool" where
  "has_pm25 loc =
     and_then (dict_get loc ''sensors'' (JArr [])) (\<lambda>sensors.
     and_then (py_iter sensors) any_pm25)"

text \<open>
  The body of the first loop for one location: \<open>Inr True\<close> when the location is appended
  to \<^verbatim>\<open>suitable_locations\<close>, \<open>Inr False\<close> when the loop goes on without it.
\<close>

definition suitable :: "runtime \<Rightarrow> int \<Rightarrow> json \<Rightarrow> exn + bool" where
  "suitable rt eight_hours_ago loc =
     and_then (last_updated_str loc) (\<lambda>lus.
       if \<not> truthy lus then Inr False
       else
         and_then (replace_Z lus) (\<lambda>iso.
           case fromisoformat rt iso of
             None \<Rightarrow> Inl ValueError
           | Some last_updated \<Rightarrow>
               and_then (dt_less last_updated (Aware eight_hours_ago)) (\<lambda>older.
                 if older then Inr False else has_pm25 loc)))"

fun suitable_locations :: "runtime \<Rightarrow> int \<Rightarrow> json list \<Rightarrow> json list \<Rightarrow> exn + json list" where
  "suitable_locations rt eight_hours_ago [] acc = Inr acc"
| "suitable_locations rt eight_hours_ago (loc # locs) acc =
     (case suitable rt eight_hours_ago loc of
        Inl e \<Rightarrow> Inl e
      | Inr keep \<Rightarrow>
          suitable_locations rt eight_hours_ago locs (if keep then acc @ [loc] else acc))"

text \<open>The test of one measurement in the scan for the last valid one.\<close>

definition measurement_ok :: "json \<Rightarrow> exn + bool" where
  "measurement_ok measurement =
     and_then (dict_get measurement ''period'' (JObj [])) (\<lambda>period.
     and_then (dict_get period ''datetimeTo'' (JObj [])) (\<lambda>datetimeTo.
     and_then (dict_get datetimeTo ''utc'' JNull) (\<lambda>utc.
       if utc \<noteq> JNull then
         and_then (dict_get measurement ''value'' JNull) (\<lambda>v. Inr (v \<noteq> JNull))
       else Inr False)))"

text \<open>The scan, over the measurements already reversed; \<open>JNull\<close> is \<^verbatim>\<open>None\<close>.\<close>

fun scan_measurements :: "json list \<Rightarrow> exn + json" where
  "scan_measurements [] = Inr JNull"
| "scan_measurements (measurement # ms) =
     (case measurement_ok measurement of
        Inl e \<Rightarrow> Inl e
      | Inr ok \<Rightarrow> if ok then Inr measurement else scan_measurements ms)"

definition last_measurement :: "json \<Rightarrow> exn + json" where
  "last_measurement results = and_then (py_iter results) (\<lambda>ms. scan_measurements (rev ms))"

text \<open>
  The measurements of a sensor: \<open>Inr None\<close> when the request fails with an HTTP status
  error, which the inner \<^verbatim>\<open>try\<close> catches before going on to the next location.
\<close>

definition fetch_hourly :: "openaq \<Rightarrow> json \<Rightarrow> int \<Rightarrow> exn + json option" where
  "fetch_hourly aq sid eight_hours_ago =
     (case hourly aq sid eight_hours_ago of
        Inl (HTTPStatusError code) \<Rightarrow> Inr None
      | Inl e \<Rightarrow> Inl e
      | Inr data \<Rightarrow> Inr (Some data))"

text \<open>
  The body of the second loop for one location, first half: the pm25 sensor of the
  location and the measurements the provider has for it. \<open>Inr None\<close> when the loop goes
  on to the next location (no pm25 sensor, an HTTP status error for this sensor, no
  measurements), \<open>Inr (Some (sensor_id, results))\<close> otherwise.
\<close>

definition sensor_measurements :: "openaq \<Rightarrow> int \<Rightarrow> json \<Rightarrow> exn + (json \<times> json) option" where
  "sensor_measurements aq eight_hours_ago selected_location =
     and_then (item selected_location ''sensors'') (\<lambda>sensors.
     and_then (py_iter sensors) (\<lambda>ss.
     and_then (next_pm25 ss) (\<lambda>pm25_sensor.
       if \<not> truthy pm25_sensor then Inr None
       else
         and_then (item pm25_sensor ''id'') (\<lambda>sid.
         and_then (fetch_hourly aq sid eight_hours_ago) (\<lambda>fetched.
           case fetched of
             None \<Rightarrow> Inr None
           | Some data \<Rightarrow>
               and_then (dict_get data ''results'' JNull) (\<lambda>results.
                 if \<not> truthy results then Inr None else Inr (Some (sid, results))))))))"

text \<open>
  Second half: the last valid measurement and the reading made of it. \<open>Inr None\<close> when
  no measurement is valid, \<open>Inr (Some r)\<close> when \<open>r\<close> is appended to
  \<^verbatim>\<open>air_quality_results\<close>.
\<close>

definition assemble :: "runtime \<Rightarrow> json \<Rightarrow> json \<Rightarrow> json \<Rightarrow> exn + AirQualityResult option" where
  "assemble rt selected_location sid results =
     and_then (last_measurement results) (\<lambda>lm.
       if \<not> truthy lm then Inr None
       else
         and_then (item selected_location ''name'') (\<lambda>name.
         and_then (item lm ''period'') (\<lambda>period.
         and_then (item period ''datetimeTo'') (\<lambda>datetimeTo.
         and_then (item datetimeTo ''utc'') (\<lambda>utc.
         and_then (item lm ''value'') (\<lambda>v.
         and_then (validated (int_field rt sid)) (\<lambda>i.
         and_then (validated (str_field rt name)) (\<lambda>n.
         and_then (validated (str_field rt utc)) (\<lambda>t.
         and_then (validated (float_field rt v)) (\<lambda>p.
           Inr (Some \<lparr>sensor_id = i, placename = n, timestamp = t,
                      pm25 = p, status = ''Success.''\<rparr>)))))))))))"

definition reading :: "runtime \<Rightarrow> openaq \<Rightarrow> int \<Rightarrow> json \<Rightarrow> exn + AirQualityResult option" where
  "reading rt aq eight_hours_ago selected_location =
     and_then (sensor_measurements aq eight_hours_ago selected_location) (\<lambda>found.
       case found of
         None \<Rightarrow> Inr None
       | Some (sid, results) \<Rightarrow> assemble rt selected_location sid results)"

text \<open>The second loop: it is left as soon as three readings are assembled.\<close>

fun collect ::
  "runtime \<Rightarrow> openaq \<Rightarrow> int \<Rightarrow> json list \<Rightarrow> AirQualityResult list \<Rightarrow> exn + AirQualityResult list" where
  "collect rt aq eight_hours_ago [] air_quality_results = Inr air_quality_results"
| "collect rt aq eight_hours_ago (selected_location # locs) air_quality_results =
     (if length air_quality_results \<ge> 3 then Inr air_quality_results
      else
        case reading rt aq eight_hours_ago selected_location of
          Inl e \<Rightarrow> Inl e
        | Inr None \<Rightarrow> collect rt aq eight_hours_ago locs air_quality_results
        | Inr (Some r) \<Rightarrow> collect rt aq eight_hours_ago locs (air_quality_results @ [r]))"

text \<open>The body of the outer \<^verbatim>\<open>try\<close>; \<open>now\<close> is \<^verbatim>\<open>datetime.now(timezone.utc)\<close>.\<close>

definition get_air_quality_try ::
  "runtime \<Rightarrow> openaq \<Rightarrow> int \<Rightarrow> real \<Rightarrow> real \<Rightarrow> exn + AirQualityResult list" where
  "get_air_quality_try rt aq now lat lon =
     and_then (locations aq lat lon) (\<lambda>data.
     and_then (dict_get data ''results'' JNull) (\<lambda>results.
       if \<not> truthy results then
         Inr [\<lparr>sensor_id = 0, placename = '''', timestamp = '''', pm25 = - 1,
               status = ''Error. No locations found near coordinates.''\<rparr>]
       else
         and_then (py_iter results) (\<lambda>locs.
         and_then (suitable_locations rt (now - eight_hours) locs []) (\<lambda>suitable_locs.
           if suitable_locs = [] then Inr []
           else collect rt aq (now - eight_hours) (shuffle rt suitable_locs) []))))"

text \<open>\<^verbatim>\<open>get_air_quality\<close>: the two handlers of the outer \<^verbatim>\<open>try\<close> turn every exception
  into a list of one reading.\<close>

definition get_air_quality ::
  "runtime \<Rightarrow> openaq \<Rightarrow> int \<Rightarrow> real \<Rightarrow> real \<Rightarrow> AirQualityResult list" where
  "get_air_quality rt aq now lat lon =
     (case get_air_quality_try rt aq now lat lon of
        Inl (HTTPStatusError code) \<Rightarrow>
          [\<lparr>sensor_id = 0, placename = '''', timestamp = '''', pm25 = - 1,
            status = ''API error: '' @ str_nat code\<rparr>]
      | Inl e \<Rightarrow>
          [\<lparr>sensor_id = 0, placename = '''', timestamp = '''', pm25 = - 1,
            status = ''An unexpected error occurred at line '' @ exc_text rt e\<rparr>]
      | Inr air_quality_results \<Rightarrow> air_quality_results)"

section \<open>Example data\<close>

text \<open>A string between single quotes, as \<^verbatim>\<open>repr\<close> prints it in a message.\<close>

definition quoted :: "string \<Rightarrow> string" where
  "quoted s = [CHR 0x27] @ s @ [CHR 0x27]"

text \<open>
  A runtime for the examples, each part an excerpt of the library's behaviour that is
  right on the values the examples use: \<open>fromisoformat\<close> on the three timestamps below
  and on strings that are no timestamps; the validators on JSON numbers and strings of
  the field's own type (pydantic accepts more than these); \<open>exc_text\<close> on the two
  exceptions the examples raise inside \<^verbatim>\<open>get_air_quality\<close>, the \<^verbatim>\<open>ValueError\<close> of
  \<^verbatim>\<open>fromisoformat\<close> on "yesterday" (line 281) and the \<^verbatim>\<open>AttributeError\<close> of \<^verbatim>\<open>.get\<close> on
  \<^verbatim>\<open>None\<close> in the test of a measurement (line 352). The shuffle reverses the list.
\<close>

definition example_runtime :: runtime where
  "example_runtime =
     \<lparr>fromisoformat = (\<lambda>s.
          if s = ''2025-01-01T00:00:00+00:00'' then Some (Aware 1735689600000000)
          else if s = ''2025-01-01T00:00:01+00:00'' then Some (Aware 1735689601000000)
          else if s = ''2024-12-31T23:59:59+00:00'' then Some (Aware 1735689599000000)
          else None),
      shuffle = rev,
      int_field = (\<lambda>j. case j of JInt i \<Rightarrow> Some i | _ \<Rightarrow> None),
      float_field =
        (\<lambda>j. case j of JInt i \<Rightarrow> Some (of_int i) | JFloat r \<Rightarrow> Some r | _ \<Rightarrow> None),
      str_field = (\<lambda>j. case j of JStr s \<Rightarrow> Some s | _ \<Rightarrow> None),
      exc_text = (\<lambda>e. case e of
          ValueError \<Rightarrow> ''281: Invalid isoformat string: '' @ quoted ''yesterday''
        | AttributeError \<Rightarrow>
            ''352: '' @ quoted ''NoneType'' @ '' object has no attribute '' @ quoted ''get''
        | _ \<Rightarrow> [])\<rparr>"

text \<open>A geocoder body with one match.\<close>

definition match :: "real \<Rightarrow> real \<Rightarrow> json" where
  "match la lo =
     JObj [(''results'',
            JArr [JObj [(''type'', JStr ''Geography''),
                        (''position'', JObj [(''lat'', JFloat la), (''lon'', JFloat lo)])]])]"

text \<open>A geocoder that knows Paris and Tokyo, finds nothing for any other name, and
  refuses the fourth request of a batch with status 429.\<close>

definition example_tomtom :: "nat \<Rightarrow> string \<Rightarrow> reply" where
  "example_tomtom i pn =
     (if i = 3 then Inl (HTTPStatusError 429)
      else if pn = ''Paris'' then Inr (match 48.8566 2.3522)
      else if pn = ''Tokyo'' then Inr (match 35.6762 139.6503)
      else Inr (JObj [(''results'', JArr [])]))"

text \<open>Stations, sensors and measurements as the air-quality provider sends them.\<close>

definition sensor :: "int \<Rightarrow> string \<Rightarrow> json" where
  "sensor sid parameter_name =
     JObj [(''id'', JInt sid), (''parameter'', JObj [(''name'', JStr parameter_name)])]"

definition station :: "string \<Rightarrow> json \<Rightarrow> json list \<Rightarrow> json" where
  "station name datetime_last sensors =
     JObj [(''name'', JStr name), (''datetimeLast'', datetime_last),
           (''sensors'', JArr sensors)]"

definition utc :: "string \<Rightarrow> json" where
  "utc s = JObj [(''utc'', JStr s), (''local'', JStr s)]"

definition measurement :: "json \<Rightarrow> json \<Rightarrow> json" where
  "measurement period_end v =
     JObj [(''value'', v), (''period'', JObj [(''label'', JStr ''1hour''),
                                               (''datetimeTo'', period_end)])]"

text \<open>
  The instant of the example calls is 2025-01-01T08:00:00Z, so the cutoff is
  2025-01-01T00:00:00Z. Six stations updated one second after the cutoff, each with a
  pm25 sensor whose identifier is the station's number.
\<close>

definition example_now :: int where
  "example_now = 1735718400000000"

definition fresh_station :: "int \<Rightarrow> string \<Rightarrow> json" where
  "fresh_station sid name =
     station name (utc ''2025-01-01T00:00:01Z'') [sensor (100 + sid) ''o3'', sensor sid ''pm25'']"

definition six_stations :: "json list" where
  "six_stations =
     [fresh_station 1 ''North'', fresh_station 2 ''East'', fresh_station 3 ''South'',
      fresh_station 4 ''West'', fresh_station 5 ''Centre'', fresh_station 6 ''Harbour'']"

text \<open>
  The hourly measurements: sensor 1 has two complete measurements followed by one
  without a value and one without a period end; the request for sensor 2 fails with
  status 500; sensor 4 has no complete measurement; sensors 3, 5 and 6 have one complete
  measurement each; sensor 7 has a complete measurement followed by a newer one whose
  \<open>period\<close> is null; any other sensor has none.
\<close>

definition north_measurements :: "json list" where
  "north_measurements =
     [measurement (utc ''2025-01-01T05:00:00Z'') (JFloat 12.5),
      measurement (utc ''2025-01-01T06:00:00Z'') (JFloat 17.5),
      measurement (utc ''2025-01-01T07:00:00Z'') JNull,
      measurement (JObj [(''utc'', JNull)]) (JFloat 99)]"

definition quay_measurements :: "json list" where
  "quay_measurements =
     [measurement (utc ''2025-01-01T06:00:00Z'') (JFloat 9.5),
      JObj [(''value'', JFloat 11), (''period'', JNull)]]"

definition example_hourly :: "json \<Rightarrow> int \<Rightarrow> reply" where
  "example_hourly sid since =
     (if sid = JInt 1 then Inr (JObj [(''results'', JArr north_measurements)])
      else if sid = JInt 2 then Inl (HTTPStatusError 500)
      else if sid = JInt 3 then
        Inr (JObj [(''results'', JArr [measurement (utc ''2025-01-01T07:00:00Z'') (JInt 8)])])
      else if sid = JInt 4 then
        Inr (JObj [(''results'', JArr [measurement (utc ''2025-01-01T07:00:00Z'') JNull])])
      else if sid = JInt 5 then
        Inr (JObj [(''results'', JArr [measurement (utc ''2025-01-01T07:00:00Z'') (JFloat 3.25)])])
      else if sid = JInt 6 then
        Inr (JObj [(''results'', JArr [measurement (utc ''2025-01-01T07:00:00Z'') (JInt 21)])])
      else if sid = JInt 7 then Inr (JObj [(''results'', JArr quay_measurements)])
      else Inr (JObj [(''results'', JArr [])]))"

text \<open>An air-quality provider that answers the request for locations with \<open>discovery\<close>.\<close>

definition example_openaq :: "reply \<Rightarrow> openaq" where
  "example_openaq discovery = \<lparr>locations = (\<lambda>lat lon. discovery), hourly = example_hourly\<rparr>"

text \<open>
  Five stations for the freshness filter: one last updated exactly at the cutoff, one a
  second after it, one a second before it, one without a last-updated timestamp, and a
  fresh one that measures ozone only.
\<close>

definition cutoff_station :: json where
  "cutoff_station = station ''Cutoff'' (utc ''2025-01-01T00:00:00Z'') [sensor 3 ''pm25'']"

definition stale_station :: json where
  "stale_station = station ''Stale'' (utc ''2024-12-31T23:59:59Z'') [sensor 5 ''pm25'']"

definition silent_station :: json where
  "silent_station = station ''Silent'' JNull [sensor 6 ''pm25'']"

definition ozone_station :: json where
  "ozone_station = station ''Ozone'' (utc ''2025-01-01T00:00:01Z'') [sensor 101 ''o3'']"

definition five_stations :: "json list" where
  "five_stations =
     [cutoff_station, stale_station, fresh_station 1 ''North'', silent_station, ozone_station]"

text \<open>A station whose last-updated timestamp is no timestamp.\<close>

definition garbled_station :: json where
  "garbled_station = station ''Garbled'' (utc ''yesterday'') [sensor 5 ''pm25'']"

section \<open>Geocoding: the outcome of one lookup\<close>


lemma and_then_Inl_iff:
  "and_then x f = Inl e \<longleftrightarrow> x = Inl e \<or> (\<exists>v. x = Inr v \<and> f v = Inl e)"
  by (cases x) auto

text \<open>
  Claim C6. The outcome of \<^verbatim>\<open>_geocode_one_placename\<close> for a place name:
  \<^item> when the body has no results (the key is missing, or its value is empty), the
    coordinate is (0, 0) and the message is exactly "error resolving placename";
  \<^item> when the request fails with an HTTP status error, the coordinate is (0, 0) and the
    message is "upstream error (status code=N)" with the status code N in decimal;
  \<^item> when the first result has a position whose \<open>lat\<close> and \<open>lon\<close> validate as floats,
    the coordinate is that position and the message is exactly "ok".
\<close>

theorem geocode_outcomes:
  "(tomtom pn = Inr data \<and> dict_get data ''results'' JNull = Inr results \<and> \<not> truthy results
      \<longrightarrow> geocode_one_placename rt tomtom pn =
            Inr \<lparr>latitude = 0, longitude = 0, placename = pn,
                 message = ''error resolving placename''\<rparr>)
   \<and> (tomtom pn = Inl (HTTPStatusError code)
      \<longrightarrow> geocode_one_placename rt tomtom pn =
            Inr \<lparr>latitude = 0, longitude = 0, placename = pn,
                 message = ''upstream error (status code='' @ str_nat code @ '')''\<rparr>)
   \<and> (tomtom pn = Inr data \<and> dict_get data ''results'' JNull = Inr (JArr (first # rest))
        \<and> item first ''position'' = Inr position
        \<and> item position ''lat'' = Inr lat \<and> item position ''lon'' = Inr lon
        \<and> float_field rt lat = Some la \<and> float_field rt lon = Some lo
      \<longrightarrow> geocode_one_placename rt tomtom pn =
            Inr \<lparr>latitude = la, longitude = lo, placename = pn, message = ''ok''\<rparr>)"
  by (simp add: geocode_one_placename_def geocode_one_placename_try_def validated_def)

text \<open>The three outcomes on the example geocoder: an unknown name, a refused request
  (status 429) and Paris.\<close>

theorem geocode_outcomes_witness:
  "example_tomtom 1 ''???invalid'' = Inr (JObj [(''results'', JArr [])])
   \<and> geocode_one_placename example_runtime (example_tomtom 1) ''???invalid'' =
       Inr \<lparr>latitude = 0, longitude = 0, placename = ''???invalid'',
            message = ''error resolving placename''\<rparr>
   \<and> example_tomtom 3 ''Paris'' = Inl (HTTPStatusError 429)
   \<and> geocode_one_placename example_runtime (example_tomtom 3) ''Paris'' =
       Inr \<lparr>latitude = 0, longitude = 0, placename = ''Paris'',
            message = ''upstream error (status code=429)''\<rparr>
   \<and> example_tomtom 0 ''Paris'' = Inr (match 48.8566 2.3522)
   \<and> geocode_one_placename example_runtime (example_tomtom 0) ''Paris'' =
       Inr \<lparr>latitude = 48.8566, longitude = 2.3522, placename = ''Paris'', message = ''ok''\<rparr>"
proof -
  have none: "example_tomtom 1 ''???invalid'' = Inr (JObj [(''results'', JArr [])])"
    by (simp add: example_tomtom_def)
  have refused: "example_tomtom 3 ''Paris'' = Inl (HTTPStatusError 429)"
    by (simp add: example_tomtom_def)
  have paris: "example_tomtom 0 ''Paris'' = Inr (match 48.8566 2.3522)"
    by (simp add: example_tomtom_def)
  have digits: "str_nat 429 = ''429''"
    by (simp add: digit_def)
  have a: "geocode_one_placename example_runtime (example_tomtom 1) ''???invalid'' =
       Inr \<lparr>latitude = 0, longitude = 0, placename = ''???invalid'',
            message = ''error resolving placename''\<rparr>"
    using geocode_outcomes [where tomtom = "example_tomtom 1" and pn = "''???invalid''"
        and data = "JObj [(''results'', JArr [])]" and results = "JArr []"
        and rt = example_runtime] none
    by simp
  have b: "geocode_one_placename example_runtime (example_tomtom 3) ''Paris'' =
       Inr \<lparr>latitude = 0, longitude = 0, placename = ''Paris'',
            message = ''upstream error (status code=429)''\<rparr>"
    using geocode_outcomes [where tomtom = "example_tomtom 3" and pn = "''Paris''"
        and code = "429" and rt = example_runtime] refused digits
    by simp
  have validates: "float_field example_runtime (JFloat 48.8566) = Some 48.8566"
    "float_field example_runtime (JFloat 2.3522) = Some 2.3522"
    by (simp_all add: example_runtime_def)
  have c: "geocode_one_placename example_runtime (example_tomtom 0) ''Paris'' =
       Inr \<lparr>latitude = 48.8566, longitude = 2.3522, placename = ''Paris'', message = ''ok''\<rparr>"
    using geocode_outcomes [where tomtom = "example_tomtom 0" and pn = "''Paris''"
        and data = "match 48.8566 2.3522"
        and first = "JObj [(''type'', JStr ''Geography''),
                        (''position'', JObj [(''lat'', JFloat 48.8566), (''lon'', JFloat 2.3522)])]"
        and rest = "[]"
        and position = "JObj [(''lat'', JFloat 48.8566), (''lon'', JFloat 2.3522)]"
        and lat = "JFloat 48.8566" and lon = "JFloat 2.3522"
        and la = "48.8566" and lo = "2.3522" and rt = example_runtime] paris validates
    by (simp add: match_def)
  from none a refused b paris c show ?thesis by blast
qed

section \<open>Geocoding: the batch\<close>

lemma gather_Inr_iff:
  "gather ts = Inr rs \<longleftrightarrow> length rs = length ts \<and> (\<forall>i<length ts. ts ! i = Inr (rs ! i))"
proof (induction ts arbitrary: rs)
  case Nil
  then show ?case by auto
next
  case (Cons t ts)
  show ?case
  proof (cases t)
    case (Inl e)
    then show ?thesis by auto
  next
    case (Inr r)
    show ?thesis
    proof (cases rs)
      case Nil
      then show ?thesis using Inr by (auto split: sum.splits)
    next
      case (Cons r' rs')
      then show ?thesis using Inr Cons.IH [of rs']
        by (auto simp: nth_Cons less_Suc_eq_0_disj split: sum.splits nat.splits)
    qed
  qed
qed

lemma gather_returns:
  "(\<forall>t\<in>set ts. \<exists>r. t = Inr r) \<Longrightarrow> \<exists>rs. gather ts = Inr rs"
  by (induction ts) auto

lemma geocode_one_placename_returns:
  "(\<forall>e. geocode_one_placename_try rt tomtom pn = Inl e \<longrightarrow> (\<exists>c. e = HTTPStatusError c))
     \<Longrightarrow> \<exists>r. geocode_one_placename rt tomtom pn = Inr r"
  by (cases "geocode_one_placename_try rt tomtom pn")
     (auto simp: geocode_one_placename_def)

text \<open>
  What the batch keeps. \<^verbatim>\<open>placenames_to_latlons\<close> returns the list \<open>rs\<close> exactly when \<open>rs\<close> has the
  length of the input and its \<open>i\<close>-th element is what the lookup of the \<open>i\<close>-th name
  returned, for every position \<open>i\<close> (duplicates and the empty list included). It does
  return such a list whenever no lookup raises anything but an HTTP status error, which
  the lookup itself turns into an outcome.
\<close>

theorem batch_positional:
  "(placenames_to_latlons rt tomtom pns = Inr rs \<longleftrightarrow>
      length rs = length pns \<and>
      (\<forall>i<length pns. geocode_one_placename rt (tomtom i) (pns ! i) = Inr (rs ! i)))
   \<and> ((\<forall>i<length pns. \<forall>e. geocode_one_placename_try rt (tomtom i) (pns ! i) = Inl e
                           \<longrightarrow> (\<exists>c. e = HTTPStatusError c))
      \<longrightarrow> (\<exists>rs. placenames_to_latlons rt tomtom pns = Inr rs \<and> length rs = length pns))"
proof
  show "placenames_to_latlons rt tomtom pns = Inr rs \<longleftrightarrow>
      length rs = length pns \<and>
      (\<forall>i<length pns. geocode_one_placename rt (tomtom i) (pns ! i) = Inr (rs ! i))"
    by (simp add: placenames_to_latlons_def gather_Inr_iff)
next
  show "(\<forall>i<length pns. \<forall>e. geocode_one_placename_try rt (tomtom i) (pns ! i) = Inl e
                           \<longrightarrow> (\<exists>c. e = HTTPStatusError c))
      \<longrightarrow> (\<exists>rs. placenames_to_latlons rt tomtom pns = Inr rs \<and> length rs = length pns)"
  proof
    assume only_http: "\<forall>i<length pns. \<forall>e.
        geocode_one_placename_try rt (tomtom i) (pns ! i) = Inl e \<longrightarrow> (\<exists>c. e = HTTPStatusError c)"
    let ?tasks = "map (\<lambda>(i, pn). geocode_one_placename rt (tomtom i) pn)
                      (zip [0 ..< length pns] pns)"
    have "\<forall>t\<in>set ?tasks. \<exists>r. t = Inr r"
    proof
      fix t assume "t \<in> set ?tasks"
      then obtain i where i: "i < length pns"
        and t: "t = geocode_one_placename rt (tomtom i) (pns ! i)"
        by (auto simp: in_set_conv_nth)
      from only_http i geocode_one_placename_returns [of rt "tomtom i" "pns ! i"] t
      show "\<exists>r. t = Inr r" by auto
    qed
    then obtain rs where rs: "gather ?tasks = Inr rs"
      using gather_returns by blast
    then have "length rs = length pns"
      by (simp add: gather_Inr_iff)
    with rs show "\<exists>rs. placenames_to_latlons rt tomtom pns = Inr rs \<and> length rs = length pns"
      by (auto simp: placenames_to_latlons_def)
  qed
qed

lemma all_less_4:
  "(\<forall>i<Suc (Suc (Suc (Suc 0))). P i) \<longleftrightarrow> P 0 \<and> P 1 \<and> P 2 \<and> P 3"
  by (auto simp: less_Suc_eq numeral_2_eq_2 numeral_3_eq_3)

text \<open>A batch of four names, with a duplicate, a name that is not found and a refused
  request: four outcomes, each at the position of its name.\<close>

theorem batch_positional_witness:
  "placenames_to_latlons example_runtime example_tomtom
       [''Paris'', ''???invalid'', ''Tokyo'', ''Paris''] =
     Inr [\<lparr>latitude = 48.8566, longitude = 2.3522, placename = ''Paris'', message = ''ok''\<rparr>,
          \<lparr>latitude = 0, longitude = 0, placename = ''???invalid'',
           message = ''error resolving placename''\<rparr>,
          \<lparr>latitude = 35.6762, longitude = 139.6503, placename = ''Tokyo'', message = ''ok''\<rparr>,
          \<lparr>latitude = 0, longitude = 0, placename = ''Paris'',
           message = ''upstream error (status code=429)''\<rparr>]"
proof -
  have each: "\<forall>i<length [''Paris'', ''???invalid'', ''Tokyo'', ''Paris''].
      geocode_one_placename example_runtime (example_tomtom i)
          ([''Paris'', ''???invalid'', ''Tokyo'', ''Paris''] ! i) =
        Inr ([\<lparr>latitude = 48.8566, longitude = 2.3522, placename = ''Paris'', message = ''ok''\<rparr>,
          \<lparr>latitude = 0, longitude = 0, placename = ''???invalid'',
           message = ''error resolving placename''\<rparr>,
          \<lparr>latitude = 35.6762, longitude = 139.6503, placename = ''Tokyo'', message = ''ok''\<rparr>,
          \<lparr>latitude = 0, longitude = 0, placename = ''Paris'',
           message = ''upstream error (status code=429)''\<rparr>] ! i)"
    by (simp add: all_less_4 geocode_one_placename_def geocode_one_placename_try_def
        validated_def example_runtime_def example_tomtom_def match_def digit_def)
  show ?thesis
    using batch_positional [THEN conjunct1, THEN iffD2, OF conjI, OF _ each]
    by simp
qed

text \<open>
  Claim C3. The batch does not return one outcome per name for every input: when one
  lookup fails in transport (an exception that is no HTTP status error), the exception
  leaves \<^verbatim>\<open>_geocode_one_placename\<close> and \<^verbatim>\<open>asyncio.gather\<close> raises it, so the batch returns
  no list, although the two other lookups have their outcomes.
\<close>

theorem batch_lost_to_one_failure:
  "geocode_one_placename example_runtime (example_tomtom 0) ''Paris'' =
     Inr \<lparr>latitude = 48.8566, longitude = 2.3522, placename = ''Paris'', message = ''ok''\<rparr>
   \<and> geocode_one_placename example_runtime (example_tomtom 1) ''???invalid'' =
     Inr \<lparr>latitude = 0, longitude = 0, placename = ''???invalid'',
          message = ''error resolving placename''\<rparr>
   \<and> geocode_one_placename example_runtime (\<lambda>pn. Inl RequestError) ''Tokyo'' = Inl RequestError
   \<and> placenames_to_latlons example_runtime
        (\<lambda>i pn. if i = 2 then Inl RequestError else example_tomtom i pn)
        [''Paris'', ''???invalid'', ''Tokyo''] = Inl RequestError"
  by (simp add: placenames_to_latlons_def geocode_one_placename_def
      geocode_one_placename_try_def validated_def example_runtime_def example_tomtom_def
      match_def)

text \<open>
  Claim C9. The batch of the single name \<open>pn\<close> is the result of \<^verbatim>\<open>placename_to_latlon\<close>
  for \<open>pn\<close> against the same geocoder, as a list of one element; when the single lookup
  raises, so does the batch, with the same exception.
\<close>

theorem single_is_batch_of_one:
  "placenames_to_latlons rt tomtom [pn] =
     (case placename_to_latlon rt (tomtom 0) pn of Inl e \<Rightarrow> Inl e | Inr r \<Rightarrow> Inr [r])"
  by (simp add: placenames_to_latlons_def placename_to_latlon_def split: sum.splits)

text \<open>
  Claim C2, for the two geocoding tools. An exception that is no HTTP status error
  leaves \<^verbatim>\<open>placename_to_latlon\<close> and \<^verbatim>\<open>placenames_to_latlons\<close>: a failed connection, or a
  body whose first result has no position.
\<close>

theorem geocode_exception_escapes:
  "placename_to_latlon example_runtime (\<lambda>pn. Inl RequestError) ''Paris'' = Inl RequestError
   \<and> placename_to_latlon example_runtime
        (\<lambda>pn. Inr (JObj [(''results'', JArr [JObj [(''type'', JStr ''Geography'')]])]))
        ''Paris'' = Inl KeyError
   \<and> placenames_to_latlons example_runtime
        (\<lambda>i pn. if i = 1 then Inl RequestError else example_tomtom i pn)
        [''Paris'', ''Tokyo''] = Inl RequestError"
  by (simp add: placename_to_latlon_def placenames_to_latlons_def geocode_one_placename_def
      geocode_one_placename_try_def validated_def example_runtime_def example_tomtom_def
      match_def)

section \<open>Air quality: the freshness filter\<close>

lemma suitable_locations_Inr:
  "suitable_locations rt c locs acc = Inr kept \<Longrightarrow>
     kept = acc @ filter (\<lambda>l. suitable rt c l = Inr True) locs
     \<and> (\<forall>l\<in>set locs. \<exists>b. suitable rt c l = Inr b)"
proof (induction locs arbitrary: acc)
  case Nil
  then show ?case by simp
next
  case (Cons loc locs)
  show ?case
  proof (cases "suitable rt c loc")
    case (Inl e)
    with Cons.prems show ?thesis by simp
  next
    case (Inr keep)
    with Cons.prems
    have "suitable_locations rt c locs (if keep then acc @ [loc] else acc) = Inr kept"
      by simp
    from Cons.IH [OF this] Inr show ?thesis by auto
  qed
qed

lemma suitable_locations_Inl:
  "\<forall>l\<in>set pre. \<exists>b. suitable rt c l = Inr b \<Longrightarrow> suitable rt c bad = Inl e \<Longrightarrow>
     suitable_locations rt c (pre @ bad # post) acc = Inl e"
  by (induction pre arbitrary: acc) auto

lemma suitable_no_timestamp:
  "last_updated_str loc = Inr lus \<Longrightarrow> \<not> truthy lus \<Longrightarrow> suitable rt c loc = Inr False"
  by (simp add: suitable_def)

lemma suitable_aware:
  "last_updated_str loc = Inr lus \<Longrightarrow> truthy lus \<Longrightarrow> replace_Z lus = Inr ts \<Longrightarrow>
     fromisoformat rt ts = Some (Aware t) \<Longrightarrow>
     suitable rt c loc = (if t < c then Inr False else has_pm25 loc)"
  by (simp add: suitable_def)

text \<open>
  Claim C1, as the code has it. Of the locations the first loop has gone through, with
  \<open>lus\<close> the value of \<^verbatim>\<open>(loc.get("datetimeLast") or {}).get("utc")\<close>:
  \<^item> a location without a last-updated timestamp (\<open>lus\<close> is missing, null or empty) is
    dropped;
  \<^item> a location last updated strictly before the cutoff (now minus eight hours) is
    dropped;
  \<^item> a location last updated at the cutoff or after it is kept exactly when it has a
    pm25 sensor.
\<close>

theorem freshness_filter:
  "suitable_locations rt (now - eight_hours) locs [] = Inr kept \<and> loc \<in> set locs
     \<and> last_updated_str loc = Inr lus
   \<longrightarrow> (\<not> truthy lus \<longrightarrow> loc \<notin> set kept)
     \<and> (\<forall>ts t. truthy lus \<and> replace_Z lus = Inr ts \<and> fromisoformat rt ts = Some (Aware t)
           \<longrightarrow> (t < now - eight_hours \<longrightarrow> loc \<notin> set kept)
             \<and> (now - eight_hours \<le> t \<longrightarrow> (loc \<in> set kept \<longleftrightarrow> has_pm25 loc = Inr True)))"
proof (intro impI, elim conjE)
  assume run: "suitable_locations rt (now - eight_hours) locs [] = Inr kept"
    and loc: "loc \<in> set locs" and lus: "last_updated_str loc = Inr lus"
  from suitable_locations_Inr [OF run]
  have kept: "kept = filter (\<lambda>l. suitable rt (now - eight_hours) l = Inr True) locs"
    by simp
  have missing: "\<not> truthy lus \<longrightarrow> loc \<notin> set kept"
    using kept suitable_no_timestamp [OF lus] by auto
  have parsed: "\<forall>ts t. truthy lus \<and> replace_Z lus = Inr ts \<and> fromisoformat rt ts = Some (Aware t)
           \<longrightarrow> (t < now - eight_hours \<longrightarrow> loc \<notin> set kept)
             \<and> (now - eight_hours \<le> t \<longrightarrow> (loc \<in> set kept \<longleftrightarrow> has_pm25 loc = Inr True))"
  proof (intro allI impI, elim conjE)
    fix ts t
    assume "truthy lus" "replace_Z lus = Inr ts" "fromisoformat rt ts = Some (Aware t)"
    from suitable_aware [OF lus this]
    have "suitable rt (now - eight_hours) loc =
        (if t < now - eight_hours then Inr False else has_pm25 loc)" .
    with kept loc
    show "(t < now - eight_hours \<longrightarrow> loc \<notin> set kept)
             \<and> (now - eight_hours \<le> t \<longrightarrow> (loc \<in> set kept \<longleftrightarrow> has_pm25 loc = Inr True))"
      by auto
  qed
  from missing parsed
  show "(\<not> truthy lus \<longrightarrow> loc \<notin> set kept)
     \<and> (\<forall>ts t. truthy lus \<and> replace_Z lus = Inr ts \<and> fromisoformat rt ts = Some (Aware t)
           \<longrightarrow> (t < now - eight_hours \<longrightarrow> loc \<notin> set kept)
             \<and> (now - eight_hours \<le> t \<longrightarrow> (loc \<in> set kept \<longleftrightarrow> has_pm25 loc = Inr True)))"
    by blast
qed

lemmas example_defs =
  example_runtime_def example_openaq_def example_hourly_def north_measurements_def
  quay_measurements_def quoted_def
  example_now_def eight_hours_def
  station_def sensor_def utc_def measurement_def fresh_station_def six_stations_def
  cutoff_station_def stale_station_def silent_station_def ozone_station_def
  five_stations_def garbled_station_def

lemmas air_quality_defs =
  get_air_quality_def get_air_quality_try_def reading_def sensor_measurements_def
  assemble_def fetch_hourly_def last_measurement_def measurement_ok_def suitable_def
  has_pm25_def last_updated_str_def is_pm25_def validated_def

text \<open>Of the five example stations the filter keeps the one at the cutoff and the one
  a second after it.\<close>

theorem freshness_filter_witness:
  "suitable_locations example_runtime (example_now - eight_hours) five_stations [] =
     Inr [cutoff_station, fresh_station 1 ''North'']
   \<and> silent_station \<in> set five_stations \<and> last_updated_str silent_station = Inr JNull
   \<and> silent_station \<notin> set [cutoff_station, fresh_station 1 ''North'']
   \<and> stale_station \<in> set five_stations
   \<and> fromisoformat example_runtime ''2024-12-31T23:59:59+00:00'' =
       Some (Aware (example_now - eight_hours - 1000000))
   \<and> stale_station \<notin> set [cutoff_station, fresh_station 1 ''North'']
   \<and> fromisoformat example_runtime ''2025-01-01T00:00:01+00:00'' =
       Some (Aware (example_now - eight_hours + 1000000))
   \<and> (fresh_station 1 ''North'' \<in> set [cutoff_station, fresh_station 1 ''North'']
        \<longleftrightarrow> has_pm25 (fresh_station 1 ''North'') = Inr True)
   \<and> (ozone_station \<in> set [cutoff_station, fresh_station 1 ''North'']
        \<longleftrightarrow> has_pm25 ozone_station = Inr True)"
proof -
  let ?kept = "[cutoff_station, fresh_station 1 ''North'']"
  have run: "suitable_locations example_runtime (example_now - eight_hours) five_stations [] =
      Inr ?kept"
    by (simp add: example_defs air_quality_defs)
  have silent: "silent_station \<in> set five_stations"
    "last_updated_str silent_station = Inr JNull"
    by (simp_all add: five_stations_def silent_station_def station_def last_updated_str_def)
  have stale: "stale_station \<in> set five_stations"
    "last_updated_str stale_station = Inr (JStr ''2024-12-31T23:59:59Z'')"
    "replace_Z (JStr ''2024-12-31T23:59:59Z'') = Inr ''2024-12-31T23:59:59+00:00''"
    "fromisoformat example_runtime ''2024-12-31T23:59:59+00:00'' =
       Some (Aware (example_now - eight_hours - 1000000))"
    by (simp_all add: example_defs last_updated_str_def)
  have fresh: "fresh_station 1 ''North'' \<in> set five_stations"
    "last_updated_str (fresh_station 1 ''North'') = Inr (JStr ''2025-01-01T00:00:01Z'')"
    "last_updated_str ozone_station = Inr (JStr ''2025-01-01T00:00:01Z'')"
    "ozone_station \<in> set five_stations"
    "replace_Z (JStr ''2025-01-01T00:00:01Z'') = Inr ''2025-01-01T00:00:01+00:00''"
    "fromisoformat example_runtime ''2025-01-01T00:00:01+00:00'' =
       Some (Aware (example_now - eight_hours + 1000000))"
    by (simp_all add: example_defs last_updated_str_def)
  have a: "silent_station \<notin> set ?kept"
    using freshness_filter [where loc = silent_station and lus = JNull and kept = ?kept
        and rt = example_runtime and now = example_now and locs = five_stations]
      run silent
    by simp
  have b: "stale_station \<notin> set ?kept"
    using freshness_filter [where loc = stale_station and kept = ?kept
        and lus = "JStr ''2024-12-31T23:59:59Z''"
        and rt = example_runtime and now = example_now and locs = five_stations]
      run stale
    by simp
  have c: "fresh_station 1 ''North'' \<in> set ?kept
        \<longleftrightarrow> has_pm25 (fresh_station 1 ''North'') = Inr True"
    using freshness_filter [where loc = "fresh_station 1 ''North''" and kept = ?kept
        and lus = "JStr ''2025-01-01T00:00:01Z''"
        and rt = example_runtime and now = example_now and locs = five_stations]
      run fresh
    by simp
  have d: "ozone_station \<in> set ?kept \<longleftrightarrow> has_pm25 ozone_station = Inr True"
    using freshness_filter [where loc = ozone_station and kept = ?kept
        and lus = "JStr ''2025-01-01T00:00:01Z''"
        and rt = example_runtime and now = example_now and locs = five_stations]
      run fresh
    by simp
  from run silent a stale(1,4) b fresh(6) c d show ?thesis by blast
qed

text \<open>
  The claim as the specification words it fails: the station last updated exactly at
  the cutoff passes the filter, and the call returns its reading.
\<close>

theorem cutoff_station_kept:
  "last_updated_str cutoff_station = Inr (JStr ''2025-01-01T00:00:00Z'')
   \<and> replace_Z (JStr ''2025-01-01T00:00:00Z'') = Inr ''2025-01-01T00:00:00+00:00''
   \<and> fromisoformat example_runtime ''2025-01-01T00:00:00+00:00'' =
       Some (Aware (example_now - eight_hours))
   \<and> suitable_locations example_runtime (example_now - eight_hours) [cutoff_station] [] =
       Inr [cutoff_station]
   \<and> get_air_quality example_runtime
        (example_openaq (Inr (JObj [(''results'', JArr [cutoff_station])]))) example_now 0 0 =
       [\<lparr>sensor_id = 3, placename = ''Cutoff'', timestamp = ''2025-01-01T07:00:00Z'',
         pm25 = 8, status = ''Success.''\<rparr>]"
  by (simp add: example_defs air_quality_defs)

section \<open>Air quality: the cap on the readings\<close>






lemmas filter_defs = suitable_def has_pm25_def last_updated_str_def is_pm25_def



section \<open>Air quality: the last valid measurement\<close>

lemma scan_measurements_first:
  "i < length ms \<Longrightarrow> measurement_ok (ms ! i) = Inr True \<Longrightarrow>
     \<forall>j<i. measurement_ok (ms ! j) = Inr False \<Longrightarrow> scan_measurements ms = Inr (ms ! i)"
proof (induction ms arbitrary: i)
  case Nil
  then show ?case by simp
next
  case (Cons m ms)
  show ?case
  proof (cases i)
    case 0
    with Cons.prems show ?thesis by simp
  next
    case (Suc k)
    with Cons.prems have head: "measurement_ok m = Inr False"
      by auto
    from Suc Cons.prems have "k < length ms" "measurement_ok (ms ! k) = Inr True"
      "\<forall>j<k. measurement_ok (ms ! j) = Inr False"
      by auto
    from Cons.IH [OF this] head Suc show ?thesis by simp
  qed
qed

lemma scan_measurements_none:
  "\<forall>m\<in>set ms. measurement_ok m = Inr False \<Longrightarrow> scan_measurements ms = Inr JNull"
  by (induction ms) auto

lemma last_measurement_latest:
  assumes i: "i < length ms" and ok: "measurement_ok (ms ! i) = Inr True"
    and later: "\<forall>j. i < j \<and> j < length ms \<longrightarrow> measurement_ok (ms ! j) = Inr False"
  shows "last_measurement (JArr ms) = Inr (ms ! i)"
proof -
  let ?k = "length ms - Suc i"
  from i have k: "?k < length (rev ms)" by simp
  from i have at_k: "rev ms ! ?k = ms ! i"
    by (simp add: rev_nth)
  have before: "\<forall>j<?k. measurement_ok (rev ms ! j) = Inr False"
  proof (intro allI impI)
    fix j assume j: "j < ?k"
    with i have "rev ms ! j = ms ! (length ms - Suc j)"
      by (simp add: rev_nth)
    moreover from j i have "i < length ms - Suc j \<and> length ms - Suc j < length ms"
      by arith
    ultimately show "measurement_ok (rev ms ! j) = Inr False"
      using later by simp
  qed
  from scan_measurements_first [OF k _ before] ok at_k
  show ?thesis by (simp add: last_measurement_def)
qed

lemma measurement_ok_shape:
  "map_of kvs ''period'' = Some (JObj p) \<Longrightarrow> map_of p ''datetimeTo'' = Some (JObj d) \<Longrightarrow>
     measurement_ok (JObj kvs) =
       Inr ((\<exists>u. map_of d ''utc'' = Some u \<and> u \<noteq> JNull)
            \<and> (\<exists>v. map_of kvs ''value'' = Some v \<and> v \<noteq> JNull))"
  by (auto simp: measurement_ok_def split: option.splits)

text \<open>
  What the scan does on the measurement list \<open>ms\<close> of a sensor while the tests of the
  measurements it looks at evaluate:
  \<^item> when the measurement at position \<open>i\<close> passes the test and every later one fails it,
    the scan returns the measurement at position \<open>i\<close>, whatever stands before it;
  \<^item> when no measurement passes the test, the scan returns nothing and the station
    yields no reading;
  \<^item> a measurement whose \<open>period\<close> and \<open>datetimeTo\<close> are dictionaries passes the test
    exactly when it has a \<open>utc\<close> period end and a \<open>value\<close>, neither of them null;
  \<^item> the reading of the station is made of the measurement the scan returns.
\<close>

theorem most_recent_valid:
  "(i < length ms \<and> measurement_ok (ms ! i) = Inr True
      \<and> (\<forall>j. i < j \<and> j < length ms \<longrightarrow> measurement_ok (ms ! j) = Inr False)
      \<longrightarrow> last_measurement (JArr ms) = Inr (ms ! i))
   \<and> ((\<forall>m\<in>set ms. measurement_ok m = Inr False)
      \<longrightarrow> last_measurement (JArr ms) = Inr JNull \<and> assemble rt loc sid (JArr ms) = Inr None)
   \<and> (map_of kvs ''period'' = Some (JObj p) \<and> map_of p ''datetimeTo'' = Some (JObj d)
      \<longrightarrow> measurement_ok (JObj kvs) =
            Inr ((\<exists>u. map_of d ''utc'' = Some u \<and> u \<noteq> JNull)
                 \<and> (\<exists>v. map_of kvs ''value'' = Some v \<and> v \<noteq> JNull)))
   \<and> (last_measurement results = Inr lm \<and> truthy lm
        \<and> item loc ''name'' = Inr name \<and> item lm ''period'' = Inr period
        \<and> item period ''datetimeTo'' = Inr period_end \<and> item period_end ''utc'' = Inr u
        \<and> item lm ''value'' = Inr v
        \<and> int_field rt sid = Some n \<and> str_field rt name = Some nm
        \<and> str_field rt u = Some t \<and> float_field rt v = Some x
      \<longrightarrow> assemble rt loc sid results =
            Inr (Some \<lparr>sensor_id = n, placename = nm, timestamp = t, pm25 = x,
                       status = ''Success.''\<rparr>))"
proof (intro conjI)
  show "i < length ms \<and> measurement_ok (ms ! i) = Inr True
      \<and> (\<forall>j. i < j \<and> j < length ms \<longrightarrow> measurement_ok (ms ! j) = Inr False)
      \<longrightarrow> last_measurement (JArr ms) = Inr (ms ! i)"
    using last_measurement_latest by blast
next
  show "(\<forall>m\<in>set ms. measurement_ok m = Inr False)
      \<longrightarrow> last_measurement (JArr ms) = Inr JNull \<and> assemble rt loc sid (JArr ms) = Inr None"
  proof
    assume "\<forall>m\<in>set ms. measurement_ok m = Inr False"
    then have "\<forall>m\<in>set (rev ms). measurement_ok m = Inr False" by simp
    from scan_measurements_none [OF this]
    have "last_measurement (JArr ms) = Inr JNull"
      by (simp add: last_measurement_def)
    then show "last_measurement (JArr ms) = Inr JNull \<and> assemble rt loc sid (JArr ms) = Inr None"
      by (simp add: assemble_def)
  qed
next
  show "map_of kvs ''period'' = Some (JObj p) \<and> map_of p ''datetimeTo'' = Some (JObj d)
      \<longrightarrow> measurement_ok (JObj kvs) =
            Inr ((\<exists>u. map_of d ''utc'' = Some u \<and> u \<noteq> JNull)
                 \<and> (\<exists>v. map_of kvs ''value'' = Some v \<and> v \<noteq> JNull))"
    using measurement_ok_shape by blast
next
  show "last_measurement results = Inr lm \<and> truthy lm
        \<and> item loc ''name'' = Inr name \<and> item lm ''period'' = Inr period
        \<and> item period ''datetimeTo'' = Inr period_end \<and> item period_end ''utc'' = Inr u
        \<and> item lm ''value'' = Inr v
        \<and> int_field rt sid = Some n \<and> str_field rt name = Some nm
        \<and> str_field rt u = Some t \<and> float_field rt v = Some x
      \<longrightarrow> assemble rt loc sid results =
            Inr (Some \<lparr>sensor_id = n, placename = nm, timestamp = t, pm25 = x,
                       status = ''Success.''\<rparr>)"
    by (simp add: assemble_def validated_def)
qed

text \<open>
  The measurements of sensor 1: the two newest lack the value or the period end, so the
  scan returns the one at position 1, not the last of the list, and the reading of the
  station carries its value and its period end. Sensor 4 has no complete measurement.
\<close>

theorem most_recent_valid_witness:
  "measurement_ok (north_measurements ! 3) = Inr False
   \<and> measurement_ok (north_measurements ! 2) = Inr False
   \<and> measurement_ok (north_measurements ! 1) = Inr True
   \<and> last_measurement (JArr north_measurements) =
       Inr (measurement (utc ''2025-01-01T06:00:00Z'') (JFloat 17.5))
   \<and> last_measurement (JArr [measurement (utc ''2025-01-01T07:00:00Z'') JNull]) = Inr JNull
   \<and> assemble example_runtime (fresh_station 4 ''West'') (JInt 4)
        (JArr [measurement (utc ''2025-01-01T07:00:00Z'') JNull]) = Inr None
   \<and> measurement_ok (measurement (utc ''2025-01-01T07:00:00Z'') JNull) = Inr False
   \<and> assemble example_runtime (fresh_station 1 ''North'') (JInt 1) (JArr north_measurements) =
       Inr (Some \<lparr>sensor_id = 1, placename = ''North'', timestamp = ''2025-01-01T06:00:00Z'',
                  pm25 = 17.5, status = ''Success.''\<rparr>)"
proof -
  let ?chosen = "measurement (utc ''2025-01-01T06:00:00Z'') (JFloat 17.5)"
  let ?empty = "measurement (utc ''2025-01-01T07:00:00Z'') JNull"
  have at: "north_measurements ! 1 = ?chosen" "(1::nat) < length north_measurements"
    by (simp_all add: north_measurements_def)
  have tests: "measurement_ok (north_measurements ! 3) = Inr False"
    "measurement_ok (north_measurements ! 2) = Inr False"
    "measurement_ok (north_measurements ! 1) = Inr True"
    by (simp_all add: north_measurements_def measurement_def utc_def measurement_ok_def)
  have later: "\<forall>j. 1 < j \<and> j < length north_measurements
      \<longrightarrow> measurement_ok (north_measurements ! j) = Inr False"
  proof (intro allI impI)
    fix j assume "1 < j \<and> j < length north_measurements"
    then have "j = 2 \<or> j = 3"
      by (auto simp: north_measurements_def)
    with tests show "measurement_ok (north_measurements ! j) = Inr False"
      by auto
  qed
  have a: "last_measurement (JArr north_measurements) = Inr ?chosen"
    using most_recent_valid [THEN conjunct1, rule_format, of 1 north_measurements]
      at tests(3) later
    by simp
  have none: "\<forall>m\<in>set [?empty]. measurement_ok m = Inr False"
    by (simp add: measurement_def utc_def measurement_ok_def)
  have b: "last_measurement (JArr [?empty]) = Inr JNull
      \<and> assemble example_runtime (fresh_station 4 ''West'') (JInt 4) (JArr [?empty]) = Inr None"
    using most_recent_valid [THEN conjunct2, THEN conjunct1, rule_format,
        of "[?empty]" example_runtime "fresh_station 4 ''West''" "JInt 4"] none
    by blast
  have c: "measurement_ok ?empty = Inr False"
    using most_recent_valid [THEN conjunct2, THEN conjunct2, THEN conjunct1, rule_format,
        where kvs = "[(''value'', JNull),
                      (''period'', JObj [(''label'', JStr ''1hour''),
                                         (''datetimeTo'', utc ''2025-01-01T07:00:00Z'')])]"
          and p = "[(''label'', JStr ''1hour''), (''datetimeTo'', utc ''2025-01-01T07:00:00Z'')]"
          and d = "[(''utc'', JStr ''2025-01-01T07:00:00Z''),
                    (''local'', JStr ''2025-01-01T07:00:00Z'')]"]
    by (simp add: measurement_def utc_def)
  have validates: "int_field example_runtime (JInt 1) = Some 1"
    "str_field example_runtime (JStr ''North'') = Some ''North''"
    "str_field example_runtime (JStr ''2025-01-01T06:00:00Z'') = Some ''2025-01-01T06:00:00Z''"
    "float_field example_runtime (JFloat 17.5) = Some 17.5"
    by (simp_all add: example_runtime_def)
  have d: "assemble example_runtime (fresh_station 1 ''North'') (JInt 1) (JArr north_measurements) =
       Inr (Some \<lparr>sensor_id = 1, placename = ''North'', timestamp = ''2025-01-01T06:00:00Z'',
                  pm25 = 17.5, status = ''Success.''\<rparr>)"
    using most_recent_valid [THEN conjunct2, THEN conjunct2, THEN conjunct2, rule_format,
        where results = "JArr north_measurements" and lm = ?chosen
          and loc = "fresh_station 1 ''North''" and name = "JStr ''North''"
          and period = "JObj [(''label'', JStr ''1hour''),
                              (''datetimeTo'', utc ''2025-01-01T06:00:00Z'')]"
          and period_end = "utc ''2025-01-01T06:00:00Z''"
          and u = "JStr ''2025-01-01T06:00:00Z''" and v = "JFloat 17.5"
          and rt = example_runtime and sid = "JInt 1" and n = 1 and nm = "''North''"
          and t = "''2025-01-01T06:00:00Z''" and x = "17.5"] a validates
    by (simp add: measurement_def utc_def fresh_station_def station_def)
  from tests a b c d show ?thesis by blast
qed

text \<open>
  Claim C5. The scan does not pass over every measurement that lacks a period end: a
  measurement whose \<open>period\<close> is null makes the test raise, since the default of
  \<^verbatim>\<open>.get("period", {})\<close> stands in for a missing key only. With such a measurement as
  the newest and a complete one before it, the scan raises instead of returning the
  complete one, and the whole call returns the reading of an unexpected error.
\<close>

theorem null_period_aborts:
  "measurement_ok (quay_measurements ! 0) = Inr True
   \<and> measurement_ok (quay_measurements ! 1) = Inl AttributeError
   \<and> last_measurement (JArr quay_measurements) = Inl AttributeError
   \<and> reading example_runtime (example_openaq (Inr (JObj [(''results'', JArr [])])))
        (example_now - eight_hours) (fresh_station 7 ''Quay'') = Inl AttributeError
   \<and> get_air_quality example_runtime
        (example_openaq (Inr (JObj [(''results'',
           JArr [fresh_station 7 ''Quay'', fresh_station 3 ''South''])])))
        example_now 0 0 =
       [\<lparr>sensor_id = 0, placename = '''', timestamp = '''', pm25 = - 1,
         status = ''An unexpected error occurred at line 352: '' @ quoted ''NoneType''
                    @ '' object has no attribute '' @ quoted ''get''\<rparr>]"
  by (simp add: example_defs air_quality_defs)

section \<open>Air quality: the outcome of each stage\<close>

text \<open>
  Claim C7. The outcomes of the stages of \<^verbatim>\<open>get_air_quality\<close>:
  \<^item> an HTTP status error of the request for locations gives one reading with sensor
    identifier 0, pm25 -1 and the status "API error: N", N the status code;
  \<^item> a body without locations gives one reading with the status
    "Error. No locations found near coordinates.";
  \<^item> locations none of which passes the filter give the empty list;
  \<^item> an HTTP status error of the request for the measurements of a location's sensor
    makes the loop go on with the next location, the readings assembled so far kept.
\<close>

theorem stage_outcomes:
  "(locations aq lat lon = Inl (HTTPStatusError code)
      \<longrightarrow> get_air_quality rt aq now lat lon =
            [\<lparr>sensor_id = 0, placename = '''', timestamp = '''', pm25 = - 1,
              status = ''API error: '' @ str_nat code\<rparr>])
   \<and> (locations aq lat lon = Inr data \<and> dict_get data ''results'' JNull = Inr results
        \<and> \<not> truthy results
      \<longrightarrow> get_air_quality rt aq now lat lon =
            [\<lparr>sensor_id = 0, placename = '''', timestamp = '''', pm25 = - 1,
              status = ''Error. No locations found near coordinates.''\<rparr>])
   \<and> (locations aq lat lon = Inr data \<and> dict_get data ''results'' JNull = Inr results
        \<and> truthy results \<and> py_iter results = Inr locs
        \<and> suitable_locations rt (now - eight_hours) locs [] = Inr []
      \<longrightarrow> get_air_quality rt aq now lat lon = [])
   \<and> (length acc < 3 \<and> item loc ''sensors'' = Inr sensors \<and> py_iter sensors = Inr ss
        \<and> next_pm25 ss = Inr pm25_sensor \<and> truthy pm25_sensor
        \<and> item pm25_sensor ''id'' = Inr sid
        \<and> hourly aq sid c = Inl (HTTPStatusError code)
      \<longrightarrow> collect rt aq c (loc # rest) acc = collect rt aq c rest acc)"
  by (simp add: get_air_quality_def get_air_quality_try_def reading_def
      sensor_measurements_def fetch_hourly_def)

text \<open>
  A refused request for locations (status 503), an empty list of locations, locations
  that are all stale or silent, and station 2, whose measurements cannot be fetched
  (status 500).
\<close>

theorem stage_outcomes_witness:
  "get_air_quality example_runtime (example_openaq (Inl (HTTPStatusError 503))) example_now 0 0 =
     [\<lparr>sensor_id = 0, placename = '''', timestamp = '''', pm25 = - 1,
       status = ''API error: 503''\<rparr>]
   \<and> get_air_quality example_runtime (example_openaq (Inr (JObj [(''results'', JArr [])])))
        example_now 0 0 =
     [\<lparr>sensor_id = 0, placename = '''', timestamp = '''', pm25 = - 1,
       status = ''Error. No locations found near coordinates.''\<rparr>]
   \<and> suitable_locations example_runtime (example_now - eight_hours)
        [stale_station, silent_station, ozone_station] [] = Inr []
   \<and> get_air_quality example_runtime
        (example_openaq (Inr (JObj [(''results'',
                                     JArr [stale_station, silent_station, ozone_station])])))
        example_now 0 0 = []
   \<and> hourly (example_openaq (Inl (HTTPStatusError 503))) (JInt 2) (example_now - eight_hours) =
       Inl (HTTPStatusError 500)
   \<and> collect example_runtime (example_openaq (Inl (HTTPStatusError 503)))
        (example_now - eight_hours) [fresh_station 2 ''East'', fresh_station 3 ''South''] [] =
       collect example_runtime (example_openaq (Inl (HTTPStatusError 503)))
        (example_now - eight_hours) [fresh_station 3 ''South''] []"
proof -
  let ?down = "example_openaq (Inl (HTTPStatusError 503))"
  let ?c = "example_now - eight_hours"
  let ?dull = "[stale_station, silent_station, ozone_station]"
  have digits: "str_nat 503 = ''503''"
    by (simp add: digit_def)
  have a: "get_air_quality example_runtime ?down example_now 0 0 =
     [\<lparr>sensor_id = 0, placename = '''', timestamp = '''', pm25 = - 1,
       status = ''API error: 503''\<rparr>]"
    using stage_outcomes [THEN conjunct1, rule_format,
        where aq = ?down and lat = 0 and lon = 0 and code = 503 and rt = example_runtime
          and now = example_now] digits
    by (simp add: example_openaq_def)
  have b: "get_air_quality example_runtime (example_openaq (Inr (JObj [(''results'', JArr [])])))
        example_now 0 0 =
     [\<lparr>sensor_id = 0, placename = '''', timestamp = '''', pm25 = - 1,
       status = ''Error. No locations found near coordinates.''\<rparr>]"
    using stage_outcomes [THEN conjunct2, THEN conjunct1, rule_format,
        where aq = "example_openaq (Inr (JObj [(''results'', JArr [])]))" and lat = 0 and lon = 0
          and data = "JObj [(''results'', JArr [])]" and results = "JArr []"
          and rt = example_runtime and now = example_now]
    by (simp add: example_openaq_def)
  have dull: "suitable_locations example_runtime ?c ?dull [] = Inr []"
    by (simp add: example_defs filter_defs)
  have c: "get_air_quality example_runtime
        (example_openaq (Inr (JObj [(''results'', JArr ?dull)]))) example_now 0 0 = []"
    using stage_outcomes [THEN conjunct2, THEN conjunct2, THEN conjunct1, rule_format,
        where aq = "example_openaq (Inr (JObj [(''results'', JArr ?dull)]))"
          and lat = 0 and lon = 0
          and data = "JObj [(''results'', JArr ?dull)]" and results = "JArr ?dull"
          and locs = ?dull and rt = example_runtime and now = example_now] dull
    by (simp add: example_openaq_def)
  have refused: "hourly ?down (JInt 2) ?c = Inl (HTTPStatusError 500)"
    by (simp add: example_openaq_def example_hourly_def)
  have d: "collect example_runtime ?down ?c [fresh_station 2 ''East'', fresh_station 3 ''South''] [] =
       collect example_runtime ?down ?c [fresh_station 3 ''South''] []"
    using stage_outcomes [THEN conjunct2, THEN conjunct2, THEN conjunct2, rule_format,
        where acc = "[]" and loc = "fresh_station 2 ''East''"
          and sensors = "JArr [sensor 102 ''o3'', sensor 2 ''pm25'']"
          and ss = "[sensor 102 ''o3'', sensor 2 ''pm25'']"
          and pm25_sensor = "sensor 2 ''pm25''" and sid = "JInt 2" and aq = ?down and c = ?c
          and code = 500 and rt = example_runtime and rest = "[fresh_station 3 ''South'']"]
      refused
    by (simp add: fresh_station_def station_def sensor_def is_pm25_def)
  from a b dull c refused d show ?thesis by blast
qed

section \<open>Air quality: a timestamp that does not parse\<close>

text \<open>
  Claim C10. When the locations before \<open>bad\<close> go through the filter without an
  exception and \<open>bad\<close> has a last-updated timestamp, a non-empty string, that
  \<^verbatim>\<open>datetime.fromisoformat\<close> rejects, the whole call returns one reading: sensor
  identifier 0, pm25 -1 and the status of an unexpected error. The malformed timestamp
  is not treated as a missing one, and no other location is looked at.
\<close>

theorem malformed_timestamp_aborts:
  "locations aq lat lon = Inr data
     \<and> dict_get data ''results'' JNull = Inr (JArr (pre @ bad # post))
     \<and> (\<forall>l\<in>set pre. \<exists>b. suitable rt (now - eight_hours) l = Inr b)
     \<and> last_updated_str bad = Inr (JStr s) \<and> s \<noteq> [] \<and> replace_Z (JStr s) = Inr ts
     \<and> fromisoformat rt ts = None
   \<longrightarrow> get_air_quality rt aq now lat lon =
         [\<lparr>sensor_id = 0, placename = '''', timestamp = '''', pm25 = - 1,
           status = ''An unexpected error occurred at line '' @ exc_text rt ValueError\<rparr>]"
proof (intro impI, elim conjE)
  assume reply: "locations aq lat lon = Inr data"
    "dict_get data ''results'' JNull = Inr (JArr (pre @ bad # post))"
    and pre: "\<forall>l\<in>set pre. \<exists>b. suitable rt (now - eight_hours) l = Inr b"
    and bad: "last_updated_str bad = Inr (JStr s)" "s \<noteq> []" "replace_Z (JStr s) = Inr ts"
      "fromisoformat rt ts = None"
  from bad have "suitable rt (now - eight_hours) bad = Inl ValueError"
    by (simp add: suitable_def)
  from suitable_locations_Inl [OF pre this]
  have "suitable_locations rt (now - eight_hours) (pre @ bad # post) [] = Inl ValueError" .
  with reply have "get_air_quality_try rt aq now lat lon = Inl ValueError"
    by (simp add: get_air_quality_try_def)
  then show "get_air_quality rt aq now lat lon =
         [\<lparr>sensor_id = 0, placename = '''', timestamp = '''', pm25 = - 1,
           status = ''An unexpected error occurred at line '' @ exc_text rt ValueError\<rparr>]"
    by (simp add: get_air_quality_def)
qed

text \<open>Two fresh stations around one whose timestamp reads "yesterday": no reading of
  the fresh stations is returned.\<close>

theorem malformed_timestamp_aborts_witness:
  "last_updated_str garbled_station = Inr (JStr ''yesterday'')
   \<and> fromisoformat example_runtime ''yesterday'' = None
   \<and> get_air_quality example_runtime
        (example_openaq (Inr (JObj [(''results'',
           JArr [fresh_station 1 ''North'', garbled_station, fresh_station 3 ''South''])])))
        example_now 0 0 =
       [\<lparr>sensor_id = 0, placename = '''', timestamp = '''', pm25 = - 1,
         status = ''An unexpected error occurred at line 281: Invalid isoformat string: ''
                    @ quoted ''yesterday''\<rparr>]"
proof -
  let ?data = "JObj [(''results'',
           JArr [fresh_station 1 ''North'', garbled_station, fresh_station 3 ''South''])]"
  have reply: "locations (example_openaq (Inr ?data)) 0 0 = Inr ?data"
    "dict_get ?data ''results'' JNull =
       Inr (JArr ([fresh_station 1 ''North''] @ garbled_station # [fresh_station 3 ''South'']))"
    by (simp_all add: example_openaq_def)
  have pre: "\<forall>l\<in>set [fresh_station 1 ''North''].
      \<exists>b. suitable example_runtime (example_now - eight_hours) l = Inr b"
    by (auto simp: example_defs filter_defs)
  have bad: "last_updated_str garbled_station = Inr (JStr ''yesterday'')"
    "''yesterday'' \<noteq> []" "replace_Z (JStr ''yesterday'') = Inr ''yesterday''"
    "fromisoformat example_runtime ''yesterday'' = None"
    by (simp_all add: example_defs last_updated_str_def)
  have "get_air_quality example_runtime (example_openaq (Inr ?data)) example_now 0 0 =
       [\<lparr>sensor_id = 0, placename = '''', timestamp = '''', pm25 = - 1,
         status = ''An unexpected error occurred at line ''
                    @ exc_text example_runtime ValueError\<rparr>]"
    using malformed_timestamp_aborts [rule_format,
        where aq = "example_openaq (Inr ?data)" and lat = 0 and lon = 0 and data = ?data
          and pre = "[fresh_station 1 ''North'']" and bad = garbled_station
          and post = "[fresh_station 3 ''South'']" and rt = example_runtime
          and now = example_now and s = "''yesterday''" and ts = "''yesterday''"]
      reply pre bad
    by blast
  moreover have "exc_text example_runtime ValueError =
      ''281: Invalid isoformat string: '' @ quoted ''yesterday''"
    by (simp add: example_runtime_def)
  ultimately have "get_air_quality example_runtime (example_openaq (Inr ?data)) example_now 0 0 =
       [\<lparr>sensor_id = 0, placename = '''', timestamp = '''', pm25 = - 1,
         status = ''An unexpected error occurred at line 281: Invalid isoformat string: ''
                    @ quoted ''yesterday''\<rparr>]"
    by simp
  with bad show ?thesis by blast
qed

section \<open>Air quality: exceptions stay inside the tool\<close>

text \<open>
  Whatever exception the body of the outer \<^verbatim>\<open>try\<close> of \<^verbatim>\<open>get_air_quality\<close> raises, the tool
  returns one reading with sensor identifier 0, pm25 -1 and a status that is not empty.
  The geocoding tools have no such handler (see \<open>geocode_one_placename\<close>).
\<close>

lemma exception_becomes_reading:
  "get_air_quality_try rt aq now lat lon = Inl e \<Longrightarrow>
     \<exists>st. get_air_quality rt aq now lat lon =
            [\<lparr>sensor_id = 0, placename = '''', timestamp = '''', pm25 = - 1, status = st\<rparr>]
          \<and> st \<noteq> []"
  by (cases e) (simp_all add: get_air_quality_def)

end
